theory Spec2Isabelle
  imports Main "HOL-Library.Char_ord" "HOL-Library.List_Lexorder"
begin

section \<open>Data model\<close>

text \<open>
  The identity provider's user object, as far as \<^verbatim>\<open>Dashboard.tsx\<close> reads it
  (\<^verbatim>\<open>user.id\<close>, \<^verbatim>\<open>user.email\<close>, \<^verbatim>\<open>user.created_at\<close>). The field \<^verbatim>\<open>id\<close> is
  written \<open>user_id\<close>, since \<open>id\<close> is the identity function of HOL.
\<close>

record User =
  user_id :: string
  user_email :: "string option"
  user_created_at :: string

text \<open>
  \<^verbatim>\<open>interface UserProfile\<close> of \<^verbatim>\<open>Dashboard.tsx\<close>: \<^verbatim>\<open>string | null\<close> is
  \<open>string option\<close>, the time stamps are the ISO strings of the source.
\<close>

record UserProfile =
  profile_id :: string
  first_name :: "string option"
  last_name :: "string option"
  email :: "string option"
  created_at :: string
  updated_at :: string

text \<open>
  What an awaited call of the store or of the identity provider gives back. The client
  library resolves to \<^verbatim>\<open>{ data, error }\<close>: \<open>Data\<close> is a null \<^verbatim>\<open>error\<close>, \<open>Error\<close> a
  non-null one, \<open>Thrown\<close> a rejected promise, which the \<^verbatim>\<open>catch\<close> blocks receive. The
  source tests \<^verbatim>\<open>error\<close> for truthiness only; the kinds are the taxonomy of the
  specification, carried here so that statements can speak about them.
\<close>

datatype failure = NotFound | TransientError | Conflict | AuthFailure

datatype 'a response = Data 'a | Error failure | Thrown

text \<open>The notification sink: \<^verbatim>\<open>toast.success(msg)\<close> and \<^verbatim>\<open>toast.error(msg)\<close>.\<close>

datatype toast = Toast_success string | Toast_error string

section \<open>The dashboard\<close>

text \<open>
  The state of a mounted \<^verbatim>\<open>Dashboard\<close>: \<open>user\<close> is the value of the authentication
  context at the last render, \<open>profile\<close> and \<open>loading\<close> are the two \<^verbatim>\<open>useState\<close> cells.
  \<open>in_flight\<close> lists the profile queries that were sent and have not resolved yet, each
  by the id it asked for (\<^verbatim>\<open>.eq('id', user.id)\<close>). \<open>toasts\<close> and \<open>navigated\<close>
  record the calls of \<^verbatim>\<open>toast\<close> and of \<^verbatim>\<open>navigate\<close>, oldest first. Writes to the
  developer console are not part of the state.
\<close>

record Dashboard =
  user :: "User option"
  profile :: "UserProfile option"
  loading :: bool
  in_flight :: "string list"
  toasts :: "toast list"
  navigated :: "string list"

text \<open>\<^verbatim>\<open>useState(null)\<close>, \<^verbatim>\<open>useState(true)\<close>; nothing sent, nothing notified.\<close>

definition Dashboard_init :: Dashboard where
  "Dashboard_init =
     \<lparr>user = None, profile = None, loading = True, in_flight = [], toasts = [],
      navigated = []\<rparr>"

text \<open>
  \<^verbatim>\<open>fetchProfile\<close> up to its \<^verbatim>\<open>await\<close>: with a user the query is sent, without
  one the function returns at once.
\<close>

definition fetchProfile :: "User option \<Rightarrow> Dashboard \<Rightarrow> Dashboard" where
  "fetchProfile u s =
     (case u of
        None \<Rightarrow> s
      | Some usr \<Rightarrow> s\<lparr>in_flight := in_flight s @ [user_id usr]\<rparr>)"

text \<open>
  \<^verbatim>\<open>fetchProfile\<close> from its \<^verbatim>\<open>await\<close> on: the \<^verbatim>\<open>error\<close> branch notifies, the
  \<^verbatim>\<open>else\<close> branch installs the row, the \<^verbatim>\<open>catch\<close> block only logs, and
  \<^verbatim>\<open>finally\<close> clears \<open>loading\<close> on all three paths.
\<close>

definition fetchProfile_resume :: "UserProfile response \<Rightarrow> Dashboard \<Rightarrow> Dashboard" where
  "fetchProfile_resume r s =
     (case r of
        Error e \<Rightarrow>
          s\<lparr>toasts := toasts s @ [Toast_error ''Failed to load profile data''],
            loading := False\<rparr>
      | Data d \<Rightarrow> s\<lparr>profile := Some d, loading := False\<rparr>
      | Thrown \<Rightarrow> s\<lparr>loading := False\<rparr>)"

text \<open>\<^verbatim>\<open>handleLogout\<close> from the \<^verbatim>\<open>await signOut()\<close> on.\<close>

definition handleLogout_resume :: "unit response \<Rightarrow> Dashboard \<Rightarrow> Dashboard" where
  "handleLogout_resume r s =
     (case r of
        Error e \<Rightarrow> s\<lparr>toasts := toasts s @ [Toast_error ''Failed to sign out'']\<rparr>
      | Data u \<Rightarrow>
          s\<lparr>toasts := toasts s @ [Toast_success ''Signed out successfully''],
            navigated := navigated s @ [''/'']\<rparr>
      | Thrown \<Rightarrow> s\<lparr>toasts := toasts s @ [Toast_error ''An unexpected error occurred'']\<rparr>)"

text \<open>\<^verbatim>\<open>handleProfileUpdate\<close>: \<^verbatim>\<open>setProfile(updatedProfile)\<close>.\<close>

definition handleProfileUpdate :: "UserProfile \<Rightarrow> Dashboard \<Rightarrow> Dashboard" where
  "handleProfileUpdate updatedProfile s = s\<lparr>profile := Some updatedProfile\<rparr>"

text \<open>Removing the entry at a position of a list; the list is returned as it is when
  the position is past its end.\<close>

fun remove_nth :: "nat \<Rightarrow> 'a list \<Rightarrow> 'a list" where
  "remove_nth n [] = []"
| "remove_nth 0 (x # xs) = xs"
| "remove_nth (Suc n) (x # xs) = x # remove_nth n xs"

text \<open>
  The events a mounted dashboard reacts to, one reaction per event:
  \<^item> \<open>Session_change u\<close>: the context delivers a new \<^verbatim>\<open>user\<close>; the component renders
    with it and the effect with dependency \<^verbatim>\<open>[user]\<close> runs \<^verbatim>\<open>fetchProfile\<close>;
  \<^item> \<open>Fetch_resolved k r\<close>: the query at position \<open>k\<close> of \<open>in_flight\<close> resolves to \<open>r\<close>,
    in any order; with no such query the event cannot happen and the state stays;
  \<^item> \<open>Logout_resolved r\<close>: the \<^verbatim>\<open>signOut\<close> call of \<^verbatim>\<open>handleLogout\<close> resolves to \<open>r\<close>;
  \<^item> \<open>Profile_update p\<close>: the profile form calls \<^verbatim>\<open>onProfileUpdate(p)\<close>.
\<close>

datatype event =
    Session_change "User option"
  | Fetch_resolved nat "UserProfile response"
  | Logout_resolved "unit response"
  | Profile_update UserProfile

fun step :: "Dashboard \<Rightarrow> event \<Rightarrow> Dashboard" where
  "step s (Session_change u) = fetchProfile u (s\<lparr>user := u\<rparr>)"
| "step s (Fetch_resolved k r) =
     (if k < length (in_flight s)
      then fetchProfile_resume r (s\<lparr>in_flight := remove_nth k (in_flight s)\<rparr>)
      else s)"
| "step s (Logout_resolved r) = handleLogout_resume r s"
| "step s (Profile_update p) = handleProfileUpdate p s"

definition run :: "Dashboard \<Rightarrow> event list \<Rightarrow> Dashboard" where
  "run s evs = foldl step s evs"

text \<open>An event that does not bring a session: every event but a change to a user.\<close>

fun no_session :: "event \<Rightarrow> bool" where
  "no_session (Session_change (Some u)) = False"
| "no_session e = True"

text \<open>
  An event that installs no profile: every event but a query that resolves with a row
  and a profile update from the form.
\<close>

fun keeps_profile :: "event \<Rightarrow> bool" where
  "keeps_profile (Fetch_resolved k (Data d)) = False"
| "keeps_profile (Profile_update p) = False"
| "keeps_profile e = True"

section \<open>The profile form\<close>

text \<open>
  The draft of \<^verbatim>\<open>ProfileForm.tsx\<close>, the object held in \<^verbatim>\<open>formData\<close>. The field names
  carry the prefix \<open>form_\<close>, since the profile record has the plain ones.
\<close>

record form_data =
  form_first_name :: string
  form_last_name :: string
  form_email :: string

text \<open>
  The three \<^verbatim>\<open>useState\<close> cells of a mounted \<^verbatim>\<open>ProfileForm\<close>. Its \<^verbatim>\<open>loading\<close> cell is
  written \<open>form_loading\<close>, since the dashboard has a \<open>loading\<close> of its own.
\<close>

record ProfileForm =
  isOpen :: bool
  form_loading :: bool
  formData :: form_data

text \<open>\<^verbatim>\<open>x || ''\<close> on a \<^verbatim>\<open>string | null\<close>: \<^verbatim>\<open>null\<close> and the empty string both give
  the empty string, any other string gives itself.\<close>

definition or_empty :: "string option \<Rightarrow> string" where
  "or_empty x = (case x of None \<Rightarrow> [] | Some v \<Rightarrow> v)"

text \<open>
  The initial values of the cells, computed once, when the form is mounted with the
  profile \<open>p\<close> as its property. The dashboard mounts the form when it renders with a
  profile (\<^verbatim>\<open>profile && <ProfileForm ... />\<close>, with no \<^verbatim>\<open>key\<close>), and no code of the form
  assigns \<^verbatim>\<open>formData\<close> from the profile afterwards.
\<close>

definition ProfileForm_init :: "UserProfile \<Rightarrow> ProfileForm" where
  "ProfileForm_init p =
     \<lparr>isOpen = False, form_loading = False,
      formData =
        \<lparr>form_first_name = or_empty (first_name p),
         form_last_name = or_empty (last_name p),
         form_email = or_empty (email p)\<rparr>\<rparr>"

text \<open>
  \<^verbatim>\<open>setIsOpen\<close>: the Edit Profile button calls it with \<^verbatim>\<open>true\<close>, the Cancel button
  with \<^verbatim>\<open>false\<close>, and the dialog with either (\<^verbatim>\<open>onOpenChange={setIsOpen}\<close>).
\<close>

definition setIsOpen :: "bool \<Rightarrow> ProfileForm \<Rightarrow> ProfileForm" where
  "setIsOpen b f = f\<lparr>isOpen := b\<rparr>"

text \<open>
  \<^verbatim>\<open>handleInputChange\<close> for an input named \<open>name\<close> holding \<open>value\<close>:
  \<^verbatim>\<open>{ ...prev, [name]: value }\<close>. A name other than the three fields would add a key
  that nothing reads, and leaves the three as they are.
\<close>

definition handleInputChange :: "string \<Rightarrow> string \<Rightarrow> ProfileForm \<Rightarrow> ProfileForm" where
  "handleInputChange name val f =
     f\<lparr>formData :=
         (if name = ''first_name'' then (formData f)\<lparr>form_first_name := val\<rparr>
          else if name = ''last_name'' then (formData f)\<lparr>form_last_name := val\<rparr>
          else if name = ''email'' then (formData f)\<lparr>form_email := val\<rparr>
          else formData f)\<rparr>"

text \<open>
  The object given to \<^verbatim>\<open>.update(...)\<close>, as a map from column names to values; \<open>now\<close>
  is the value of \<^verbatim>\<open>new Date().toISOString()\<close>, the clock of the client.
\<close>

definition update_patch :: "form_data \<Rightarrow> string \<Rightarrow> (string \<rightharpoonup> string)" where
  "update_patch fd now =
     [''first_name'' \<mapsto> form_first_name fd,
      ''last_name'' \<mapsto> form_last_name fd,
      ''updated_at'' \<mapsto> now]"

text \<open>
  \<^verbatim>\<open>handleSubmit\<close> up to its \<^verbatim>\<open>await\<close>, in a form whose property is the profile \<open>p\<close>:
  \<^verbatim>\<open>setLoading(true)\<close>, and the update that is sent, as the pair of the row id
  (\<^verbatim>\<open>.eq('id', profile.id)\<close>) and the patch.
\<close>

definition handleSubmit ::
  "string \<Rightarrow> UserProfile \<Rightarrow> ProfileForm \<Rightarrow> ProfileForm \<times> (string \<times> (string \<rightharpoonup> string))" where
  "handleSubmit now p f =
     (f\<lparr>form_loading := True\<rparr>, (profile_id p, update_patch (formData f) now))"

text \<open>
  \<^verbatim>\<open>handleSubmit\<close> from its \<^verbatim>\<open>await\<close> on, over the form and the dashboard that passed
  \<^verbatim>\<open>handleProfileUpdate\<close> as \<^verbatim>\<open>onProfileUpdate\<close>. \<^verbatim>\<open>finally\<close> clears the form's loading flag
  on all three paths.
\<close>

definition handleSubmit_resume ::
  "UserProfile response \<Rightarrow> ProfileForm \<times> Dashboard \<Rightarrow> ProfileForm \<times> Dashboard" where
  "handleSubmit_resume r fd =
     (case fd of (f, d) \<Rightarrow>
        (case r of
           Error e \<Rightarrow>
             (f\<lparr>form_loading := False\<rparr>,
              d\<lparr>toasts := toasts d @ [Toast_error ''Failed to update profile'']\<rparr>)
         | Data x \<Rightarrow>
             (f\<lparr>isOpen := False, form_loading := False\<rparr>,
              handleProfileUpdate x
                (d\<lparr>toasts := toasts d @ [Toast_success ''Profile updated successfully!'']\<rparr>))
         | Thrown \<Rightarrow>
             (f\<lparr>form_loading := False\<rparr>,
              d\<lparr>toasts := toasts d @ [Toast_error ''An unexpected error occurred'']\<rparr>)))"

section \<open>The profile store\<close>

text \<open>
  Modelled from the spec: the profile store is an external collaborator, not code of the
  repository. Its point update (sections 3, 4.2 and 6 of the specification) takes a patch
  of first name and last name and writes one row atomically: it writes the names the
  patch gives and leaves the others, never changes the id, the email or the creation
  time, and sets \<^verbatim>\<open>updated_at\<close> itself, whatever the patch holds beside the names. The
  value it sets is the reading \<open>stamp\<close> of its own clock, or the value the row holds when
  that is the later one, so that \<^verbatim>\<open>updated_at\<close> never decreases. Time stamps are ISO
  strings of one format, which the order of strings (lexicographic, by character code)
  orders by time. The row the update returns is the row it wrote.
\<close>

definition apply_patch :: "string \<Rightarrow> (string \<rightharpoonup> string) \<Rightarrow> UserProfile \<Rightarrow> UserProfile" where
  "apply_patch stamp pt row =
     row\<lparr>first_name := (case pt ''first_name'' of None \<Rightarrow> first_name row | Some v \<Rightarrow> Some v),
         last_name := (case pt ''last_name'' of None \<Rightarrow> last_name row | Some v \<Rightarrow> Some v),
         updated_at := max (updated_at row) stamp\<rparr>"

section \<open>The landing page\<close>

text \<open>
  The redirect effect of \<^verbatim>\<open>Index.tsx\<close>, run whenever \<^verbatim>\<open>user\<close> or \<^verbatim>\<open>loading\<close> of the
  authentication context changes: the list of the \<^verbatim>\<open>navigate\<close> calls it makes. The
  context's \<^verbatim>\<open>loading\<close> is written \<open>pending\<close>: it is true until the identity provider
  has reported its first state.
\<close>

definition Index_effect :: "User option \<Rightarrow> bool \<Rightarrow> string list" where
  "Index_effect usr pending =
     (if \<not> pending \<and> usr \<noteq> None then [''/dashboard''] else [])"

section \<open>Example values\<close>

text \<open>Two users and their profile rows, for the concrete runs below.\<close>

abbreviation user_a :: User where
  "user_a \<equiv> \<lparr>user_id = ''a'', user_email = Some ''a@x.org'', user_created_at = ''2024-01-01''\<rparr>"

abbreviation user_b :: User where
  "user_b \<equiv> \<lparr>user_id = ''b'', user_email = Some ''b@x.org'', user_created_at = ''2024-02-02''\<rparr>"

abbreviation profile_a :: UserProfile where
  "profile_a \<equiv>
     \<lparr>profile_id = ''a'', first_name = Some ''Bob'', last_name = None,
      email = Some ''a@x.org'', created_at = ''2024-01-01'', updated_at = ''2025-05-05T10:00:00.000Z''\<rparr>"

abbreviation profile_b :: UserProfile where
  "profile_b \<equiv>
     \<lparr>profile_id = ''b'', first_name = Some ''Eve'', last_name = Some ''Moss'',
      email = Some ''b@x.org'', created_at = ''2024-02-02'', updated_at = ''2024-02-02T10:00:00.000Z''\<rparr>"

section \<open>Properties of the dashboard\<close>

lemma run_Nil: "run s [] = s"
  by (simp add: run_def)

lemma run_Cons: "run s (e # evs) = run (step s e) evs"
  by (simp add: run_def)

lemma run_snoc: "run s (evs @ [e]) = step (run s evs) e"
  by (simp add: run_def)

lemma step_no_session_keeps:
  assumes "no_session e" and "loading s" and "in_flight s = []"
  shows "loading (step s e) \<and> in_flight (step s e) = []"
proof (cases e)
  case (Session_change u)
  with assms show ?thesis
    by (cases u) (simp_all add: fetchProfile_def)
next
  case (Fetch_resolved k r)
  with assms show ?thesis by simp
next
  case (Logout_resolved r)
  with assms show ?thesis
    by (cases r) (simp_all add: handleLogout_resume_def)
next
  case (Profile_update p)
  with assms show ?thesis by (simp add: handleProfileUpdate_def)
qed

lemma run_no_session_keeps:
  "list_all no_session evs \<Longrightarrow> loading s \<Longrightarrow> in_flight s = [] \<Longrightarrow>
     loading (run s evs) \<and> in_flight (run s evs) = []"
proof (induction evs arbitrary: s)
  case Nil
  then show ?case by (simp add: run_Nil)
next
  case (Cons e evs)
  from Cons.prems have e: "no_session e" and rest: "list_all no_session evs"
    by simp_all
  from step_no_session_keeps [OF e Cons.prems(2) Cons.prems(3)]
  have "loading (step s e)" and "in_flight (step s e) = []" by simp_all
  with Cons.IH [OF rest] show ?case by (simp add: run_Cons)
qed

text \<open>
  C10. With no session (\<open>user\<close> is \<open>None\<close>) the fetch reaction sends no query and leaves
  the cached profile and the loading flag as they were. The flag starts \<open>True\<close> and only
  the continuation of a sent query clears it, so after any sequence of events none of
  which brings a session the dashboard is still loading, with no query in flight.
\<close>

theorem no_session_stays_loading:
  "in_flight (step s (Session_change None)) = in_flight s \<and>
   profile (step s (Session_change None)) = profile s \<and>
   loading (step s (Session_change None)) = loading s \<and>
   (list_all no_session evs \<longrightarrow>
      loading (run Dashboard_init evs) \<and> in_flight (run Dashboard_init evs) = [])"
proof -
  have "loading Dashboard_init" and "in_flight Dashboard_init = []"
    by (simp_all add: Dashboard_init_def)
  then have "list_all no_session evs \<longrightarrow>
      loading (run Dashboard_init evs) \<and> in_flight (run Dashboard_init evs) = []"
    using run_no_session_keeps by blast
  then show ?thesis by (simp add: fetchProfile_def)
qed

theorem no_session_stays_loading_witness:
  "list_all no_session
     [Session_change None, Logout_resolved (Error AuthFailure), Fetch_resolved 0 Thrown,
      Session_change None] \<and>
   loading (run Dashboard_init
     [Session_change None, Logout_resolved (Error AuthFailure), Fetch_resolved 0 Thrown,
      Session_change None]) \<and>
   in_flight (run Dashboard_init
     [Session_change None, Logout_resolved (Error AuthFailure), Fetch_resolved 0 Thrown,
      Session_change None]) = []"
  using no_session_stays_loading
    [of Dashboard_init
      "[Session_change None, Logout_resolved (Error AuthFailure), Fetch_resolved 0 Thrown,
        Session_change None]"]
  by simp

lemma step_fetch_data:
  "k < length (in_flight s) \<Longrightarrow>
     step s (Fetch_resolved k (Data p)) =
       s\<lparr>in_flight := remove_nth k (in_flight s), profile := Some p, loading := False\<rparr>"
  by (simp add: fetchProfile_resume_def)

lemma step_session_change_profile:
  "profile (step s (Session_change u)) = profile s"
  by (cases u) (simp_all add: fetchProfile_def)

lemma run_append: "run s (evs @ rest) = run (run s evs) rest"
  by (simp add: run_def)

lemma step_keeps_profile:
  assumes "keeps_profile e"
  shows "profile (step s e) = profile s"
proof (cases e)
  case (Session_change u)
  then show ?thesis
    using step_session_change_profile [of s u] by simp
next
  case (Fetch_resolved k r)
  with assms show ?thesis
    by (cases r) (simp_all add: fetchProfile_resume_def)
next
  case (Logout_resolved r)
  then show ?thesis
    by (cases r) (simp_all add: handleLogout_resume_def)
next
  case (Profile_update p)
  with assms show ?thesis by simp
qed

lemma run_keeps_profile:
  "list_all keeps_profile rest \<Longrightarrow> profile (run s rest) = profile s"
proof (induction rest arbitrary: s)
  case Nil
  then show ?case by (simp add: run_Nil)
next
  case (Cons e rest)
  then have "profile (run (step s e) rest) = profile (step s e)" by simp
  moreover from Cons.prems have "profile (step s e) = profile s"
    by (simp add: step_keeps_profile)
  ultimately show ?case by (simp add: run_Cons)
qed

lemma step_not_loading:
  assumes "\<not> loading s"
  shows "\<not> loading (step s e)"
proof (cases e)
  case (Session_change u)
  with assms show ?thesis by (cases u) (simp_all add: fetchProfile_def)
next
  case (Fetch_resolved k r)
  with assms show ?thesis
    by (cases r) (simp_all add: fetchProfile_resume_def)
next
  case (Logout_resolved r)
  with assms show ?thesis
    by (cases r) (simp_all add: handleLogout_resume_def)
next
  case (Profile_update p)
  with assms show ?thesis by (simp add: handleProfileUpdate_def)
qed

lemma run_not_loading:
  "\<not> loading s \<Longrightarrow> \<not> loading (run s evs)"
proof (induction evs arbitrary: s)
  case Nil
  then show ?case by (simp add: run_Nil)
next
  case (Cons e evs)
  from Cons.prems have "\<not> loading (step s e)" by (rule step_not_loading)
  then show ?case by (simp add: run_Cons Cons.IH)
qed

text \<open>
  C1, as the code has it. The dashboard keeps no fetch generation: the continuation of a
  query compares nothing with the current session. Whenever a query that is in flight
  resolves with a row, after any sequence of events and whichever session change sent
  it, the row becomes the cached profile and loading is cleared. The cached profile
  after all events is the row of the query that resolved last with a row, or of a later
  profile update: the events that follow and install no profile (session changes,
  queries that fail or throw, sign-outs) leave it in place, and a run of such events
  alone leaves the profile it started with.
\<close>

theorem fetch_result_always_applied:
  assumes "k < length (in_flight (run s evs))" and "list_all keeps_profile rest"
  shows "profile (run s (evs @ [Fetch_resolved k (Data p)])) = Some p \<and>
         loading (run s (evs @ [Fetch_resolved k (Data p)])) = False \<and>
         in_flight (run s (evs @ [Fetch_resolved k (Data p)])) =
           remove_nth k (in_flight (run s evs)) \<and>
         profile (run s (evs @ [Fetch_resolved k (Data p), Session_change u])) = Some p \<and>
         profile (run s (evs @ [Fetch_resolved k (Data p)] @ rest)) = Some p \<and>
         loading (run s (evs @ [Fetch_resolved k (Data p)] @ rest)) = False \<and>
         profile (run s (evs @ [Profile_update p] @ rest)) = Some p \<and>
         profile (run s rest) = profile s"
proof -
  let ?t = "run s evs"
  let ?a = "run s (evs @ [Fetch_resolved k (Data p)])"
  have one: "?a = step ?t (Fetch_resolved k (Data p))"
    by (rule run_snoc)
  have two: "run s (evs @ [Fetch_resolved k (Data p), Session_change u]) =
      step (step ?t (Fetch_resolved k (Data p))) (Session_change u)"
    by (simp add: run_def)
  from assms(1) have applied: "step ?t (Fetch_resolved k (Data p)) =
      ?t\<lparr>in_flight := remove_nth k (in_flight ?t), profile := Some p, loading := False\<rparr>"
    by (rule step_fetch_data)
  have first: "profile ?a = Some p" "loading ?a = False"
    "in_flight ?a = remove_nth k (in_flight ?t)"
    unfolding one applied by simp_all
  have next_change:
    "profile (run s (evs @ [Fetch_resolved k (Data p), Session_change u])) = Some p"
    unfolding two step_session_change_profile applied by simp
  have later: "run s (evs @ [Fetch_resolved k (Data p)] @ rest) = run ?a rest"
    by (simp add: run_def)
  from assms(2) have kept: "profile (run ?a rest) = profile ?a"
    by (rule run_keeps_profile)
  from first(2) have still: "\<not> loading (run ?a rest)"
    by (simp add: run_not_loading)
  have upd: "run s (evs @ [Profile_update p] @ rest) =
      run (step ?t (Profile_update p)) rest"
    by (simp add: run_def)
  from assms(2) have kept_upd:
    "profile (run (step ?t (Profile_update p)) rest) = profile (step ?t (Profile_update p))"
    by (rule run_keeps_profile)
  have installed: "profile (step ?t (Profile_update p)) = Some p"
    by (simp add: handleProfileUpdate_def)
  from assms(2) have alone: "profile (run s rest) = profile s"
    by (rule run_keeps_profile)
  from first next_change show ?thesis
    unfolding later upd
    using kept still kept_upd installed alone by simp
qed

theorem fetch_result_always_applied_witness:
  "0 < length (in_flight (run Dashboard_init
       [Session_change (Some user_a), Session_change (Some user_b),
        Fetch_resolved 1 (Data profile_b)])) \<and>
   list_all keeps_profile
       [Session_change (Some user_b), Fetch_resolved 0 (Error TransientError),
        Logout_resolved (Error AuthFailure), Session_change None] \<and>
   profile (run Dashboard_init
       ([Session_change (Some user_a), Session_change (Some user_b),
         Fetch_resolved 1 (Data profile_b)] @ [Fetch_resolved 0 (Data profile_a)])) =
     Some profile_a \<and>
   profile (run Dashboard_init
       ([Session_change (Some user_a), Session_change (Some user_b),
         Fetch_resolved 1 (Data profile_b)] @ [Fetch_resolved 0 (Data profile_a)] @
        [Session_change (Some user_b), Fetch_resolved 0 (Error TransientError),
         Logout_resolved (Error AuthFailure), Session_change None])) =
     Some profile_a"
  using fetch_result_always_applied
    [where k = 0 and s = Dashboard_init
       and evs = "[Session_change (Some user_a), Session_change (Some user_b),
        Fetch_resolved 1 (Data profile_b)]"
       and p = profile_a and u = None
       and rest = "[Session_change (Some user_b), Fetch_resolved 0 (Error TransientError),
        Logout_resolved (Error AuthFailure), Session_change None]"]
  by (simp add: run_def Dashboard_init_def fetchProfile_def fetchProfile_resume_def)

text \<open>
  C1 fails as stated: two session changes, first to user \<open>a\<close>, then to user \<open>b\<close>; the
  query for \<open>b\<close> resolves first and the query for \<open>a\<close> last. The stale row of \<open>a\<close> is
  applied over the row of \<open>b\<close>, while the session is that of \<open>b\<close>.
\<close>

theorem stale_fetch_overwrites_newer:
  "profile (run Dashboard_init
      [Session_change (Some user_a), Session_change (Some user_b),
       Fetch_resolved 1 (Data profile_b), Fetch_resolved 0 (Data profile_a)]) =
     Some profile_a \<and>
   user (run Dashboard_init
      [Session_change (Some user_a), Session_change (Some user_b),
       Fetch_resolved 1 (Data profile_b), Fetch_resolved 0 (Data profile_a)]) =
     Some user_b \<and>
   in_flight (run Dashboard_init
      [Session_change (Some user_a), Session_change (Some user_b)]) = [''a'', ''b'']"
  by (simp add: run_def Dashboard_init_def fetchProfile_def fetchProfile_resume_def)

text \<open>
  C2, as the code has it. When the session becomes \<open>None\<close> the reaction of the dashboard
  changes nothing but the user it renders with: the cached profile, the loading flag
  and the queries in flight stay. A query of the earlier session that resolves with a
  row afterwards is applied. A sign-out started from the dashboard that returns without
  error notifies success and asks for the route \<^verbatim>\<open>/\<close>; no outcome of it touches the
  cached profile.
\<close>

theorem sign_out_keeps_profile:
  "step s (Session_change None) = s\<lparr>user := None\<rparr> \<and>
   (k < length (in_flight s) \<longrightarrow>
      profile (step (step s (Session_change None)) (Fetch_resolved k (Data p))) = Some p \<and>
      loading (step (step s (Session_change None)) (Fetch_resolved k (Data p))) = False) \<and>
   profile (step s (Logout_resolved r)) = profile s \<and>
   loading (step s (Logout_resolved r)) = loading s \<and>
   navigated (step s (Logout_resolved (Data ()))) = navigated s @ [''/''] \<and>
   toasts (step s (Logout_resolved (Data ()))) =
     toasts s @ [Toast_success ''Signed out successfully'']"
proof -
  have out: "step s (Session_change None) = s\<lparr>user := None\<rparr>"
    by (simp add: fetchProfile_def)
  have late: "k < length (in_flight s) \<longrightarrow>
      profile (step (s\<lparr>user := None\<rparr>) (Fetch_resolved k (Data p))) = Some p \<and>
      loading (step (s\<lparr>user := None\<rparr>) (Fetch_resolved k (Data p))) = False"
    by (simp add: fetchProfile_resume_def)
  have logout: "profile (step s (Logout_resolved r)) = profile s \<and>
      loading (step s (Logout_resolved r)) = loading s"
    by (cases r) (simp_all add: handleLogout_resume_def)
  have ok: "navigated (step s (Logout_resolved (Data ()))) = navigated s @ [''/''] \<and>
      toasts (step s (Logout_resolved (Data ()))) =
        toasts s @ [Toast_success ''Signed out successfully'']"
    by (simp add: handleLogout_resume_def)
  from out late logout ok show ?thesis by simp
qed

theorem sign_out_keeps_profile_witness:
  "0 < length (in_flight (run Dashboard_init [Session_change (Some user_a)])) \<and>
   profile (step (step (run Dashboard_init [Session_change (Some user_a)])
                    (Session_change None))
              (Fetch_resolved 0 (Data profile_a))) = Some profile_a"
  using sign_out_keeps_profile
    [of "run Dashboard_init [Session_change (Some user_a)]" 0 profile_a "Data ()"]
  by (simp add: run_def Dashboard_init_def fetchProfile_def)

text \<open>
  C2 fails as stated: after the session of user \<open>a\<close> ends, the cached profile of \<open>a\<close> is
  still there; and a query of \<open>a\<close> that was in flight at the sign-out and resolves after
  it installs the profile and clears loading.
\<close>

theorem sign_out_profile_not_discarded:
  "profile (run Dashboard_init
      [Session_change (Some user_a), Fetch_resolved 0 (Data profile_a),
       Session_change None]) = Some profile_a \<and>
   profile (run Dashboard_init [Session_change (Some user_a), Session_change None]) = None \<and>
   profile (run Dashboard_init
      [Session_change (Some user_a), Session_change None,
       Fetch_resolved 0 (Data profile_a)]) = Some profile_a"
  by (simp add: run_def Dashboard_init_def fetchProfile_def fetchProfile_resume_def)

text \<open>
  C7, as the code has it. A query that resolves with an error of any kind leads to one
  and the same state whatever the kind: the cached profile stays as it was, loading is
  cleared and the fixed message \<^verbatim>\<open>Failed to load profile data\<close> goes to the notification
  sink. A query whose promise is rejected is caught: its continuation returns a state,
  with the profile as it was and loading cleared.
\<close>

theorem fetch_failure_one_state:
  "fetchProfile_resume (Error e) s = fetchProfile_resume (Error e') s \<and>
   profile (fetchProfile_resume (Error e) s) = profile s \<and>
   loading (fetchProfile_resume (Error e) s) = False \<and>
   toasts (fetchProfile_resume (Error e) s) =
     toasts s @ [Toast_error ''Failed to load profile data''] \<and>
   profile (fetchProfile_resume Thrown s) = profile s \<and>
   loading (fetchProfile_resume Thrown s) = False"
  by (simp add: fetchProfile_resume_def)

text \<open>
  C7 fails as stated: the state after a query that failed with \<open>NotFound\<close> and the state
  after one that failed with \<open>TransientError\<close> are the same state, so nothing in it tells
  the two kinds apart; it holds no profile and one notification.
\<close>

theorem fetch_failure_kinds_not_distinguished:
  "run Dashboard_init [Session_change (Some user_a), Fetch_resolved 0 (Error NotFound)] =
   run Dashboard_init [Session_change (Some user_a), Fetch_resolved 0 (Error TransientError)] \<and>
   run Dashboard_init [Session_change (Some user_a), Fetch_resolved 0 (Error NotFound)] =
     \<lparr>user = Some user_a, profile = None, loading = False, in_flight = [],
      toasts = [Toast_error ''Failed to load profile data''], navigated = []\<rparr>"
  by (simp add: run_def Dashboard_init_def fetchProfile_def fetchProfile_resume_def)

section \<open>Properties of the profile form\<close>

text \<open>
  C3. In a form opened on a profile, with any draft, the first name is edited to \<open>v\<close>
  and the form is submitted. The update goes to the row of the profile with \<open>v\<close> as its
  first name, so the row the store writes and returns has the first name \<open>v\<close>. When it
  returns, that row is handed to the dashboard, which installs it as the cached profile
  without sending a query; the form is closed and a success notification is emitted.
\<close>

theorem edit_round_trip:
  "(case handleSubmit now p (handleInputChange ''first_name'' v (setIsOpen True f)) of
      (f1, (uid, pt)) \<Rightarrow>
        uid = profile_id p \<and>
        pt ''first_name'' = Some v \<and>
        first_name (apply_patch stamp pt row) = Some v \<and>
        (case handleSubmit_resume (Data (apply_patch stamp pt row)) (f1, d) of
           (f2, d2) \<Rightarrow>
             profile d2 = Some (apply_patch stamp pt row) \<and>
             loading d2 = loading d \<and>
             in_flight d2 = in_flight d \<and>
             isOpen f2 = False \<and>
             form_loading f2 = False \<and>
             toasts d2 = toasts d @ [Toast_success ''Profile updated successfully!'']))"
  by (simp add: handleSubmit_def handleInputChange_def setIsOpen_def update_patch_def
      apply_patch_def handleSubmit_resume_def handleProfileUpdate_def)

text \<open>
  C4. A form that is open is submitted, and the update fails: the store answers with an
  error of any kind, or the call throws. The form is open again with its loading flag
  cleared and the draft it had, a failure notification is emitted, and the dashboard is
  as it was but for that notification: the cached profile is untouched.
\<close>

theorem failed_submit_keeps_draft:
  assumes "isOpen f"
  shows "(case handleSubmit now p f of
      (f1, req) \<Rightarrow>
        isOpen f1 \<and> form_loading f1 \<and>
        handleSubmit_resume (Error e) (f1, d) =
          (f\<lparr>form_loading := False\<rparr>,
           d\<lparr>toasts := toasts d @ [Toast_error ''Failed to update profile'']\<rparr>) \<and>
        handleSubmit_resume Thrown (f1, d) =
          (f\<lparr>form_loading := False\<rparr>,
           d\<lparr>toasts := toasts d @ [Toast_error ''An unexpected error occurred'']\<rparr>) \<and>
        isOpen (fst (handleSubmit_resume (Error e) (f1, d))) \<and>
        formData (fst (handleSubmit_resume (Error e) (f1, d))) = formData f \<and>
        profile (snd (handleSubmit_resume (Error e) (f1, d))) = profile d \<and>
        isOpen (fst (handleSubmit_resume Thrown (f1, d))) \<and>
        formData (fst (handleSubmit_resume Thrown (f1, d))) = formData f \<and>
        profile (snd (handleSubmit_resume Thrown (f1, d))) = profile d)"
  using assms by (simp add: handleSubmit_def handleSubmit_resume_def)

theorem failed_submit_keeps_draft_witness:
  "isOpen (handleInputChange ''first_name'' ''Ada'' (setIsOpen True (ProfileForm_init profile_a))) \<and>
   fst (handleSubmit_resume (Error TransientError)
     (fst (handleSubmit ''2025-06-06T10:00:00.000Z'' profile_a
        (handleInputChange ''first_name'' ''Ada'' (setIsOpen True (ProfileForm_init profile_a)))),
      Dashboard_init\<lparr>profile := Some profile_a, loading := False\<rparr>)) =
     \<lparr>isOpen = True, form_loading = False,
      formData = \<lparr>form_first_name = ''Ada'', form_last_name = [],
                  form_email = ''a@x.org''\<rparr>\<rparr> \<and>
   profile (snd (handleSubmit_resume (Error TransientError)
     (fst (handleSubmit ''2025-06-06T10:00:00.000Z'' profile_a
        (handleInputChange ''first_name'' ''Ada'' (setIsOpen True (ProfileForm_init profile_a)))),
      Dashboard_init\<lparr>profile := Some profile_a, loading := False\<rparr>))) = Some profile_a"
  using failed_submit_keeps_draft
    [where f = "handleInputChange ''first_name'' ''Ada'' (setIsOpen True (ProfileForm_init profile_a))"
       and now = "''2025-06-06T10:00:00.000Z''" and p = profile_a and e = TransientError
       and d = "Dashboard_init\<lparr>profile := Some profile_a, loading := False\<rparr>"]
  by (simp add: handleSubmit_def handleInputChange_def setIsOpen_def ProfileForm_init_def
      or_empty_def)

text \<open>
  C5, as the code has it. Every update the form sends carries \<^verbatim>\<open>updated_at\<close>, set to the
  reading of the client's clock at the submit. The store sets the stored value itself:
  what it stores does not depend on the patch and is never earlier than what the row
  held. The client installs a profile only as a row the store returned, so the profile
  installed after a successful update carries the \<^verbatim>\<open>updated_at\<close> of the store.
\<close>

theorem updated_at_sent_but_set_by_store:
  "snd (snd (handleSubmit now p f)) ''updated_at'' = Some now \<and>
   updated_at row \<le> updated_at (apply_patch stamp (snd (snd (handleSubmit now p f))) row) \<and>
   updated_at (apply_patch stamp (snd (snd (handleSubmit now p f))) row) =
     updated_at (apply_patch stamp Map.empty row) \<and>
   updated_at (apply_patch stamp (snd (snd (handleSubmit now p f))) row) =
     max (updated_at row) stamp \<and>
   profile (snd (handleSubmit_resume (Data x) (f, d))) = Some x \<and>
   map_option updated_at (profile (snd (handleSubmit_resume (Data x) (f, d)))) =
     Some (updated_at x) \<and>
   profile (snd (handleSubmit_resume (Error e) (f, d))) = profile d \<and>
   profile (snd (handleSubmit_resume Thrown (f, d))) = profile d"
  by (simp add: handleSubmit_def update_patch_def apply_patch_def handleSubmit_resume_def
      handleProfileUpdate_def)

text \<open>
  C5 fails as stated: the patch of a submit does contain \<^verbatim>\<open>updated_at\<close>, here the
  reading of the client's clock at the submit.
\<close>

theorem patch_contains_updated_at:
  "snd (snd (handleSubmit ''2020-01-01T10:00:00.000Z'' profile_a
      (setIsOpen True (ProfileForm_init profile_a)))) ''updated_at'' =
     Some ''2020-01-01T10:00:00.000Z''"
  by (simp add: handleSubmit_def update_patch_def)

text \<open>
  C6, as the code has it. The patch of every submit names exactly the three columns
  \<^verbatim>\<open>first_name\<close>, \<^verbatim>\<open>last_name\<close> and \<^verbatim>\<open>updated_at\<close>, and never \<^verbatim>\<open>email\<close>, whatever
  the draft holds, also after a change event of the email input; so the store that
  writes the patch leaves the email of the row as it was.
\<close>

theorem patch_never_has_email:
  "dom (snd (snd (handleSubmit now p f))) = {''first_name'', ''last_name'', ''updated_at''} \<and>
   snd (snd (handleSubmit now p f)) ''email'' = None \<and>
   snd (snd (handleSubmit now p (handleInputChange ''email'' v f))) ''email'' = None \<and>
   email (apply_patch stamp (snd (snd (handleSubmit now p f))) row) = email row \<and>
   email (apply_patch stamp (snd (snd (handleSubmit now p (handleInputChange ''email'' v f)))) row) =
     email row"
proof -
  have cols: "dom (update_patch fd now) = {''first_name'', ''last_name'', ''updated_at''}"
    for fd
    by (auto simp add: update_patch_def)
  have none: "update_patch fd now ''email'' = None" for fd
    by (simp add: update_patch_def)
  have kept: "email (apply_patch stamp (update_patch fd now) row) = email row" for fd
    by (simp add: apply_patch_def none)
  show ?thesis
    by (simp add: handleSubmit_def cols none kept)
qed

text \<open>
  C6 fails as stated: the patch of a submit is not within the two columns
  \<^verbatim>\<open>first_name\<close> and \<^verbatim>\<open>last_name\<close>; it holds \<^verbatim>\<open>updated_at\<close> as well.
\<close>

theorem patch_not_only_names:
  "\<not> dom (snd (snd (handleSubmit ''2025-06-06T10:00:00.000Z'' profile_a
        (setIsOpen True (ProfileForm_init profile_a)))))
      \<subseteq> {''first_name'', ''last_name''}"
  by (simp add: handleSubmit_def update_patch_def)

text \<open>
  C8, as the code has it. Cancel on an open form sets \<open>isOpen\<close> to false and does nothing
  else: the draft and the loading flag are kept, so a form opened after a cancel shows
  the draft as it was left. The draft is taken from the first name, last name and email
  of the profile (the empty string for an absent one) when the form is mounted.
\<close>

theorem cancel_keeps_draft:
  "setIsOpen False f = f\<lparr>isOpen := False\<rparr> \<and>
   isOpen (setIsOpen False f) = False \<and>
   formData (setIsOpen False f) = formData f \<and>
   formData (setIsOpen True (setIsOpen False f)) = formData f \<and>
   isOpen (setIsOpen True (setIsOpen False f)) = True \<and>
   formData (ProfileForm_init p) =
     \<lparr>form_first_name = (case first_name p of None \<Rightarrow> [] | Some x \<Rightarrow> x),
      form_last_name = (case last_name p of None \<Rightarrow> [] | Some x \<Rightarrow> x),
      form_email = (case email p of None \<Rightarrow> [] | Some x \<Rightarrow> x)\<rparr>"
  by (simp add: setIsOpen_def ProfileForm_init_def or_empty_def)

text \<open>
  C8 fails as stated: a form mounted on a profile with first name Bob is opened, the
  first name is edited to Ada, the form is cancelled and opened again. The draft shown
  holds Ada, the value left by the cancelled edit, not Bob.
\<close>

theorem reopened_draft_has_leftovers:
  "form_first_name (formData
     (setIsOpen True (setIsOpen False
        (handleInputChange ''first_name'' ''Ada''
           (setIsOpen True (ProfileForm_init profile_a)))))) = ''Ada'' \<and>
   or_empty (first_name profile_a) = ''Bob''"
  by (simp add: setIsOpen_def handleInputChange_def ProfileForm_init_def or_empty_def)

section \<open>Properties of the redirects\<close>

text \<open>
  C9, as the code has it. The landing page asks for the route \<^verbatim>\<open>/dashboard\<close> exactly
  when the store is settled with a session, and makes no redirect while it is pending
  or settled without one. The dashboard asks for the route \<^verbatim>\<open>/\<close> exactly when a
  sign-out it started returns without error; its reactions to a change of the session
  and to a resolved query make no redirect.
\<close>

theorem redirects_of_the_views:
  "(Index_effect usr pending = [''/dashboard'']) = (\<not> pending \<and> usr \<noteq> None) \<and>
   (Index_effect usr pending = []) = (pending \<or> usr = None) \<and>
   Index_effect usr True = [] \<and>
   navigated (step s (Session_change u)) = navigated s \<and>
   navigated (step s (Fetch_resolved k r)) = navigated s \<and>
   navigated (step s (Profile_update x)) = navigated s \<and>
   navigated (step s (Logout_resolved (Data ()))) = navigated s @ [''/''] \<and>
   navigated (step s (Logout_resolved (Error e))) = navigated s \<and>
   navigated (step s (Logout_resolved Thrown)) = navigated s"
proof -
  have landing: "(Index_effect usr pending = [''/dashboard'']) = (\<not> pending \<and> usr \<noteq> None)"
    "(Index_effect usr pending = []) = (pending \<or> usr = None)"
    "Index_effect usr True = []"
    by (auto simp add: Index_effect_def)
  have session: "navigated (step s (Session_change u)) = navigated s"
    by (cases u) (simp_all add: fetchProfile_def)
  have fetch: "navigated (step s (Fetch_resolved k r)) = navigated s"
    by (cases r) (simp_all add: fetchProfile_resume_def)
  have rest: "navigated (step s (Profile_update x)) = navigated s"
    "navigated (step s (Logout_resolved (Data ()))) = navigated s @ [''/'']"
    "navigated (step s (Logout_resolved (Error e))) = navigated s"
    "navigated (step s (Logout_resolved Thrown)) = navigated s"
    by (simp_all add: handleProfileUpdate_def handleLogout_resume_def)
  from landing session fetch rest show ?thesis by simp
qed

text \<open>
  C9 fails as stated: a dashboard that holds the profile of user \<open>a\<close> sees the session
  become \<open>None\<close> and asks for no route.
\<close>

theorem dashboard_no_redirect_on_session_end:
  "navigated (run Dashboard_init
      [Session_change (Some user_a), Fetch_resolved 0 (Data profile_a),
       Session_change None]) = [] \<and>
   user (run Dashboard_init
      [Session_change (Some user_a), Fetch_resolved 0 (Data profile_a),
       Session_change None]) = None"
  by (simp add: run_def Dashboard_init_def fetchProfile_def fetchProfile_resume_def)

end
